theory Spec2Isabelle
  imports Complex_Main "HOL-Library.AList" "HOL-Library.Multiset" "HOL-Library.Product_Lexorder"
begin

section \<open>Data model of the multi-agent orchestrator\<close>

text \<open>
  The embedding follows \<^verbatim>\<open>src/agents/MultiAgentOrchestrator.py\<close>. Python floats are
  idealised as \<^typ>\<open>real\<close>; a \<^verbatim>\<open>datetime\<close> is a real number of seconds since a fixed
  epoch, so that \<^verbatim>\<open>(t1 - t0).total_seconds()\<close> is \<open>t1 - t0\<close>. A Python \<^verbatim>\<open>dict\<close> is an
  association list with distinct keys in insertion order: \<^const>\<open>map_of\<close> reads it,
  \<^const>\<open>AList.update\<close> is \<^verbatim>\<open>d[k] = v\<close> (in place when the key exists, appended otherwise)
  and \<^const>\<open>AList.delete\<close> is \<^verbatim>\<open>del d[k]\<close>. What the source takes from its environment
  (the clock, \<^verbatim>\<open>uuid4\<close>, the numpy random source, the outcome of an awaited call) is an
  explicit argument of the model.
\<close>

type_synonym datetime = real

type_synonym payload = "(string \<times> string) list"

datatype AgentType =
  DECISION_AGENT | DETECTION_AGENT | EXECUTION_AGENT | RISK_AGENT | MONITORING_AGENT

datatype AgentStatus = INITIALIZING | ACTIVE | PAUSED | ERROR | TERMINATED

datatype CoordinationMode = COLLABORATIVE | COMPETITIVE | HYBRID

datatype error = ValueError string | KeyError string | ZeroDivisionError

record ResourceLimits =
  max_memory :: real
  max_processing_time :: real
  max_concurrent_tasks :: real
  max_network_bandwidth :: real

record PerformanceWeights =
  w_success_rate :: real
  w_efficiency :: real
  w_reliability :: real

record LearningParameters =
  learning_rate :: real
  exploration_rate :: real
  adaptation_speed :: real

record AgentConfig =
  cfg_agent_type :: AgentType
  cfg_capabilities :: "string list"
  resource_limits :: ResourceLimits
  learning_parameters :: LearningParameters
  performance_weights :: PerformanceWeights

record PerformanceMetrics =
  success_rate :: real
  avg_processing_time :: real
  reliability_score :: real
  efficiency_score :: real
  throughput :: real

record ResourceUsage =
  memory_usage :: real
  cpu_usage :: real
  active_tasks :: int
  network_usage :: real

text \<open>An entry of an agent's local queue: the dict built by \<^verbatim>\<open>_assign_tasks\<close>.\<close>

record TaskItem =
  item_task_id :: string
  item_task_type :: string
  item_input_data :: payload
  item_deadline :: "datetime option"
  item_assigned_at :: datetime
  item_priority :: "int option"

record AgentState =
  agent_id :: string
  agent_type :: AgentType
  status :: AgentStatus
  capabilities :: "string list"
  performance_metrics :: PerformanceMetrics
  resource_usage :: ResourceUsage
  last_heartbeat :: datetime
  local_queue :: "TaskItem list"
  completed_tasks :: nat
  failed_tasks :: nat

record Task =
  task_id :: string
  task_type :: string
  priority :: int
  requirements :: "string list"
  input_data :: payload
  deadline :: "datetime option"
  assigned_agent :: "string option"
  task_status :: string
  created_at :: datetime

text \<open>
  One contribution dict of a coordination round. The fields the orchestrator never reads
  back (\<^verbatim>\<open>agent_type\<close>, \<^verbatim>\<open>processing_time\<close>, \<^verbatim>\<open>timestamp\<close>) are left out; \<open>entry_error\<close> is
  the optional \<^verbatim>\<open>'error'\<close> key.
\<close>

record Contribution =
  entry_agent_id :: string
  contribution :: real
  confidence :: real
  entry_error :: "string option"

datatype ResultPayload =
  ErrorResult string
  | Combined real "string list" "(string \<times> Contribution) list" CoordinationMode datetime

record CoordinationResult =
  coordination_id :: string
  coord_task_id :: string
  participating_agents :: "string list"
  coord_result :: ResultPayload
  coord_mode :: CoordinationMode
  coord_timestamp :: datetime
  success :: bool

record HistoryEntry =
  hist_task_id :: string
  hist_agent_id :: string
  hist_success :: bool
  hist_processing_time :: real
  hist_timestamp :: datetime

record Orchestrator =
  coordination_mode :: CoordinationMode
  agents :: "(string \<times> AgentState) list"
  agent_configs :: "(string \<times> AgentConfig) list"
  task_queue :: "Task list"
  coordination_history :: "CoordinationResult list"
  tasks_completed :: nat
  tasks_failed :: nat
  coordination_events :: nat
  capability_registry :: "(string \<times> string list) list"
  trust_scores :: "((string \<times> string) \<times> real) list"
  task_history :: "HistoryEntry list"
  is_running :: bool

text \<open>\<^verbatim>\<open>__init__\<close>: every registry starts empty.\<close>

definition init_orchestrator :: "CoordinationMode \<Rightarrow> Orchestrator" where
  "init_orchestrator m =
     \<lparr>coordination_mode = m, agents = [], agent_configs = [], task_queue = [],
      coordination_history = [], tasks_completed = 0, tasks_failed = 0,
      coordination_events = 0, capability_registry = [], trust_scores = [],
      task_history = [], is_running = False\<rparr>"

section \<open>Task submission\<close>

text \<open>
  \<^verbatim>\<open>list.sort(key=..., reverse=True)\<close> is stable: CPython reverses the list, sorts it
  stably in ascending key order and reverses it again, so elements with equal keys keep
  their relative order.
\<close>

definition sort_reverse :: "('a \<Rightarrow> 'k::linorder) \<Rightarrow> 'a list \<Rightarrow> 'a list" where
  "sort_reverse k xs = rev (sort_key k (rev xs))"

definition queue_key :: "Task \<Rightarrow> int \<times> datetime" where
  "queue_key x = (priority x, created_at x)"

definition new_task ::
  "string \<Rightarrow> string list \<Rightarrow> payload \<Rightarrow> int \<Rightarrow> datetime option \<Rightarrow> string \<Rightarrow> datetime \<Rightarrow> Task"
where
  "new_task ttype reqs inp prio dl uid now =
     \<lparr>task_id = ''TASK_'' @ uid, task_type = ttype, priority = max 1 (min 10 prio),
      requirements = reqs, input_data = inp, deadline = dl, assigned_agent = None,
      task_status = ''pending'', created_at = now\<rparr>"

text \<open>
  \<^verbatim>\<open>submit_task\<close>. \<open>uid\<close> is the eight hex digits taken from \<^verbatim>\<open>uuid4\<close> and \<open>now\<close> the
  clock reading of the \<^verbatim>\<open>created_at\<close> default. The result pairs the returned task id (or
  the raised error) with the orchestrator as the call leaves it. The assignment cycle
  started with \<^verbatim>\<open>asyncio.create_task\<close> runs after the call has returned and is not part
  of it.
\<close>

definition submit_task ::
  "Orchestrator \<Rightarrow> string \<Rightarrow> string list \<Rightarrow> payload \<Rightarrow> int \<Rightarrow> datetime option \<Rightarrow> string \<Rightarrow> datetime
     \<Rightarrow> (error + string) \<times> Orchestrator"
where
  "submit_task s ttype reqs inp prio dl uid now =
     (if reqs = [] then (Inl (ValueError ''Task must have at least one requirement''), s)
      else if inp = [] then (Inl (ValueError ''Task must have input data''), s)
      else
        let task = new_task ttype reqs inp prio dl uid now
        in (Inr (task_id task),
            s\<lparr>task_queue := sort_reverse queue_key (task_queue s @ [task])\<rparr>))"

section \<open>Agent registry\<close>

fun agent_type_value :: "AgentType \<Rightarrow> string" where
  "agent_type_value DECISION_AGENT = ''decision_agent''"
| "agent_type_value DETECTION_AGENT = ''detection_agent''"
| "agent_type_value EXECUTION_AGENT = ''execution_agent''"
| "agent_type_value RISK_AGENT = ''risk_agent''"
| "agent_type_value MONITORING_AGENT = ''monitoring_agent''"

definition base_limits :: ResourceLimits where
  "base_limits =
     \<lparr>max_memory = 1024, max_processing_time = 60, max_concurrent_tasks = 5,
      max_network_bandwidth = 100\<rparr>"

text \<open>\<^verbatim>\<open>_get_resource_limits\<close>: the base table with the per-type overrides.\<close>

fun get_resource_limits :: "AgentType \<Rightarrow> ResourceLimits" where
  "get_resource_limits DECISION_AGENT =
     base_limits\<lparr>max_memory := 2048, max_concurrent_tasks := 3\<rparr>"
| "get_resource_limits DETECTION_AGENT =
     base_limits\<lparr>max_concurrent_tasks := 8, max_processing_time := 30\<rparr>"
| "get_resource_limits EXECUTION_AGENT =
     base_limits\<lparr>max_concurrent_tasks := 10, max_processing_time := 10\<rparr>"
| "get_resource_limits RISK_AGENT =
     base_limits\<lparr>max_memory := 512, max_concurrent_tasks := 15\<rparr>"
| "get_resource_limits MONITORING_AGENT =
     base_limits\<lparr>max_concurrent_tasks := 20, max_processing_time := 5\<rparr>"

definition default_weights :: PerformanceWeights where
  "default_weights = \<lparr>w_success_rate = 0.4, w_efficiency = 0.3, w_reliability = 0.3\<rparr>"

definition new_agent_config :: "AgentType \<Rightarrow> string list \<Rightarrow> AgentConfig" where
  "new_agent_config ty caps =
     \<lparr>cfg_agent_type = ty, cfg_capabilities = caps,
      resource_limits = get_resource_limits ty,
      learning_parameters =
        \<lparr>learning_rate = 0.01, exploration_rate = 0.1, adaptation_speed = 0.05\<rparr>,
      performance_weights = default_weights\<rparr>"

definition new_agent_state :: "string \<Rightarrow> AgentType \<Rightarrow> string list \<Rightarrow> datetime \<Rightarrow> AgentState" where
  "new_agent_state aid ty caps now =
     \<lparr>agent_id = aid, agent_type = ty, status = INITIALIZING, capabilities = caps,
      performance_metrics =
        \<lparr>success_rate = 1, avg_processing_time = 0, reliability_score = 1,
         efficiency_score = 1, throughput = 0\<rparr>,
      resource_usage =
        \<lparr>memory_usage = 0, cpu_usage = 0, active_tasks = 0, network_usage = 0\<rparr>,
      last_heartbeat = now, local_queue = [], completed_tasks = 0, failed_tasks = 0\<rparr>"

text \<open>
  \<^verbatim>\<open>capability_registry\<close> is a \<^verbatim>\<open>defaultdict(list)\<close>: reading a missing key stores an
  empty list under it first.
\<close>

definition registry_append :: "string \<Rightarrow> string \<Rightarrow> (string \<times> string list) list \<Rightarrow> (string \<times> string list) list" where
  "registry_append cap aid reg =
     (case map_of reg cap of
        None \<Rightarrow> AList.update cap [aid] reg
      | Some ids \<Rightarrow> AList.update cap (ids @ [aid]) reg)"

definition registry_remove :: "string \<Rightarrow> string \<Rightarrow> (string \<times> string list) list \<Rightarrow> (string \<times> string list) list" where
  "registry_remove cap aid reg =
     (case map_of reg cap of
        None \<Rightarrow> AList.update cap [] reg
      | Some ids \<Rightarrow> if aid \<in> set ids then AList.update cap (remove1 aid ids) reg else reg)"

text \<open>The loop of \<^verbatim>\<open>create_agent\<close> that seeds both directions of trust at 0.5.\<close>

definition seed_trust ::
  "string \<Rightarrow> string list \<Rightarrow> ((string \<times> string) \<times> real) list \<Rightarrow> ((string \<times> string) \<times> real) list"
where
  "seed_trust aid others ts =
     foldl (\<lambda>acc other.
              if other \<noteq> aid
              then AList.update (other, aid) 0.5 (AList.update (aid, other) 0.5 acc)
              else acc)
       ts others"

text \<open>
  \<^verbatim>\<open>create_agent\<close>, with \<open>uid\<close> the hex digits of the fresh uuid and \<open>now\<close> the clock. The
  simulated initialisation delay does not raise, so the agent ends \<^const>\<open>ACTIVE\<close>; the
  model runs the call without another coroutine interleaved at that delay.
\<close>

definition create_agent ::
  "Orchestrator \<Rightarrow> AgentType \<Rightarrow> string list \<Rightarrow> string \<Rightarrow> datetime \<Rightarrow> string \<times> Orchestrator"
where
  "create_agent s ty caps uid now =
     (let aid = agent_type_value ty @ ''_'' @ uid;
          s1 = s\<lparr>agents := AList.update aid (new_agent_state aid ty caps now) (agents s),
                 agent_configs := AList.update aid (new_agent_config ty caps) (agent_configs s)\<rparr>;
          s2 = s1\<lparr>capability_registry :=
                     foldl (\<lambda>reg cap. registry_append cap aid reg) (capability_registry s1) caps\<rparr>;
          s3 = s2\<lparr>trust_scores := seed_trust aid (map fst (agents s2)) (trust_scores s2)\<rparr>;
          s4 = s3\<lparr>agents := AList.map_entry aid (\<lambda>a. a\<lparr>status := ACTIVE\<rparr>) (agents s3)\<rparr>
      in (aid, s4))"

section \<open>Performance tracking and the trust ledger\<close>

text \<open>\<^verbatim>\<open>list(self.task_history)[-20:]\<close>: the last twenty records, or all when fewer.\<close>

definition last_n :: "nat \<Rightarrow> 'a list \<Rightarrow> 'a list" where
  "last_n n xs = drop (length xs - n) xs"

text \<open>\<^verbatim>\<open>_update_agent_performance\<close>; an unknown agent id returns without a change.\<close>

definition update_agent_performance :: "Orchestrator \<Rightarrow> string \<Rightarrow> bool \<Rightarrow> real \<Rightarrow> Orchestrator" where
  "update_agent_performance s aid ok processing_time =
     (case map_of (agents s) aid of
        None \<Rightarrow> s
      | Some a \<Rightarrow>
          let m = performance_metrics a;
              recent_tasks = filter (\<lambda>t. hist_agent_id t = aid) (last_n 20 (task_history s));
              lr = (if length recent_tasks < 10 then 0.1 else 0.05);
              current_success = (if ok then 1 else 0);
              m1 = m\<lparr>success_rate := lr * current_success + (1 - lr) * success_rate m\<rparr>;
              m2 = (if processing_time > 0
                    then m1\<lparr>avg_processing_time :=
                               lr * processing_time + (1 - lr) * avg_processing_time m1\<rparr>
                    else m1);
              m3 = (if ok
                    then m2\<lparr>reliability_score :=
                               min 1 (reliability_score m2 + 0.02 * (1 - reliability_score m2))\<rparr>
                    else m2\<lparr>reliability_score :=
                               max 0.1 (reliability_score m2 - 0.05 * reliability_score m2)\<rparr>);
              efficiency = 1 - min processing_time 10 / 10;
              m4 = m3\<lparr>efficiency_score := lr * efficiency + (1 - lr) * efficiency_score m3\<rparr>;
              total_tasks = completed_tasks a + failed_tasks a;
              m5 = (if total_tasks > 0
                    then m4\<lparr>throughput := real (completed_tasks a) / real total_tasks * 60\<rparr>
                    else m4)
          in s\<lparr>agents := AList.update aid (a\<lparr>performance_metrics := m5\<rparr>) (agents s)\<rparr>)"

text \<open>One guarded write of \<^verbatim>\<open>_update_trust_scores\<close>: only an existing edge is moved.\<close>

definition shift_trust ::
  "real \<Rightarrow> string \<times> string \<Rightarrow> ((string \<times> string) \<times> real) list \<Rightarrow> ((string \<times> string) \<times> real) list"
where
  "shift_trust change key ts =
     (case map_of ts key of
        None \<Rightarrow> ts
      | Some v \<Rightarrow> AList.update key (max 0.1 (min 1 (v + change))) ts)"

definition update_trust_scores :: "Orchestrator \<Rightarrow> string \<Rightarrow> bool \<Rightarrow> Orchestrator" where
  "update_trust_scores s aid ok =
     (let trust_change = (if ok then 0.05 else - 0.1)
      in s\<lparr>trust_scores :=
             foldl (\<lambda>ts other.
                      if other \<noteq> aid
                      then shift_trust trust_change (other, aid)
                             (shift_trust trust_change (aid, other) ts)
                      else ts)
               (trust_scores s) (map fst (agents s))\<rparr>)"

text \<open>
  A run of the ledger: agents being created and task completions reported for an agent,
  in any order.
\<close>

datatype ledger_event =
  Created AgentType "string list" string datetime
  | Completed string bool

fun ledger_step :: "Orchestrator \<Rightarrow> ledger_event \<Rightarrow> Orchestrator" where
  "ledger_step s (Created ty caps uid now) = snd (create_agent s ty caps uid now)"
| "ledger_step s (Completed aid ok) = update_trust_scores s aid ok"

section \<open>Selection strategies\<close>

text \<open>\<^verbatim>\<open>len(set(task.requirements) & set(agent_state.capabilities))\<close>.\<close>

definition capability_match_count :: "string list \<Rightarrow> string list \<Rightarrow> nat" where
  "capability_match_count reqs caps = length (remdups (filter (\<lambda>r. r \<in> set caps) reqs))"

text \<open>\<^verbatim>\<open>self.trust_scores.get(key, 0.5)\<close>.\<close>

definition trust_get :: "((string \<times> string) \<times> real) list \<Rightarrow> string \<times> string \<Rightarrow> real" where
  "trust_get ts key = (case map_of ts key of None \<Rightarrow> 0.5 | Some v \<Rightarrow> v)"

text \<open>
  The body of the loop of \<^verbatim>\<open>_select_agent_collaborative\<close>: the score stored for one
  agent. A missing agent or configuration raises \<^verbatim>\<open>KeyError\<close>, an empty requirements
  list divides by zero. With no other agent registered \<^verbatim>\<open>np.mean([])\<close> is NaN, the total
  is NaN, and \<^verbatim>\<open>max(0.0, min(1.0, nan))\<close> evaluates to 1.0, because both comparisons
  with NaN are false and \<^verbatim>\<open>min\<close> and \<^verbatim>\<open>max\<close> then keep their first argument.
\<close>

definition collaborative_score :: "Orchestrator \<Rightarrow> Task \<Rightarrow> string \<Rightarrow> error + real" where
  "collaborative_score s task aid =
     (case map_of (agents s) aid of
        None \<Rightarrow> Inl (KeyError aid)
      | Some a \<Rightarrow>
         (case map_of (agent_configs s) aid of
            None \<Rightarrow> Inl (KeyError aid)
          | Some cfg \<Rightarrow>
              let m = performance_metrics a;
                  w = performance_weights cfg;
                  performance_score =
                    success_rate m * w_success_rate w + efficiency_score m * w_efficiency w
                    + reliability_score m * w_reliability w;
                  current_load = real (length (local_queue a));
                  max_load = max_concurrent_tasks (resource_limits cfg);
                  load_score = (if max_load > 0 then 1 - current_load / max_load else 1)
              in if requirements task = [] then Inl ZeroDivisionError
                 else
                   let capability_match =
                         capability_match_count (requirements task) (capabilities a);
                       capability_score =
                         real capability_match / real (length (requirements task));
                       others = filter (\<lambda>other. other \<noteq> aid) (map fst (agents s))
                   in if others = [] then Inr 1
                      else
                        let trust_score =
                              sum_list (map (\<lambda>other. trust_get (trust_scores s) (aid, other))
                                          others)
                              / real (length others);
                            total_score =
                              performance_score * 0.35 + load_score * 0.25
                              + capability_score * 0.25 + trust_score * 0.15
                        in Inr (max 0 (min 1 total_score))))"

text \<open>
  \<^verbatim>\<open>max(d.items(), key=lambda x: x[1])[0]\<close>: the first entry, in the dict's order, whose
  value no later entry exceeds; \<^verbatim>\<open>ValueError\<close> on an empty dict.
\<close>

definition max_by_value :: "(string \<times> real) list \<Rightarrow> error + string" where
  "max_by_value items =
     (case items of
        [] \<Rightarrow> Inl (ValueError ''max() arg is an empty sequence'')
      | x # xs \<Rightarrow> Inr (fst (foldl (\<lambda>best y. if snd best < snd y then y else best) x xs)))"

fun collect_scores ::
  "(string \<Rightarrow> error + real) \<Rightarrow> string list \<Rightarrow> (string \<times> real) list \<Rightarrow> error + (string \<times> real) list"
where
  "collect_scores f [] acc = Inr acc"
| "collect_scores f (aid # rest) acc =
     (case f aid of
        Inl e \<Rightarrow> Inl e
      | Inr v \<Rightarrow> collect_scores f rest (AList.update aid v acc))"

definition select_agent_collaborative :: "Orchestrator \<Rightarrow> Task \<Rightarrow> string list \<Rightarrow> error + string" where
  "select_agent_collaborative s task ids =
     (case collect_scores (collaborative_score s task) ids [] of
        Inl e \<Rightarrow> Inl e
      | Inr agent_scores \<Rightarrow> max_by_value agent_scores)"

text \<open>
  The numpy random source is a sequence \<open>rnd\<close> of draws from the unit interval and a
  position in it; \<^verbatim>\<open>uniform(lo, hi)\<close> is \<open>lo + (hi - lo) * u\<close> for the next draw \<open>u\<close>.
  Every function that may draw returns the position it leaves behind.
\<close>

type_synonym random_source = "nat \<Rightarrow> real"

definition uniform :: "real \<Rightarrow> real \<Rightarrow> real \<Rightarrow> real" where
  "uniform lo hi u = lo + (hi - lo) * u"

fun collect_bids ::
  "Orchestrator \<Rightarrow> Task \<Rightarrow> random_source \<Rightarrow> string list \<Rightarrow> nat \<Rightarrow> (string \<times> real) list
     \<Rightarrow> error + (string \<times> real) list \<times> nat"
where
  "collect_bids s task rnd [] pos acc = Inr (acc, pos)"
| "collect_bids s task rnd (aid # rest) pos acc =
     (case map_of (agents s) aid of
        None \<Rightarrow> Inl (KeyError aid)
      | Some a \<Rightarrow>
          let performance = success_rate (performance_metrics a);
              capability_match =
                real (capability_match_count (requirements task) (capabilities a));
              efficiency = efficiency_score (performance_metrics a);
              base_bid = performance * capability_match * efficiency;
              bid_variation = uniform 0.9 1.1 (rnd pos);
              bid = base_bid * bid_variation * (real_of_int (priority task) / 10)
          in collect_bids s task rnd rest (Suc pos) (AList.update aid bid acc))"

definition select_agent_competitive ::
  "Orchestrator \<Rightarrow> Task \<Rightarrow> string list \<Rightarrow> random_source \<Rightarrow> nat \<Rightarrow> error + string \<times> nat"
where
  "select_agent_competitive s task ids rnd pos =
     (case collect_bids s task rnd ids pos [] of
        Inl e \<Rightarrow> Inl e
      | Inr (bids, pos') \<Rightarrow>
          (case max_by_value bids of Inl e \<Rightarrow> Inl e | Inr aid \<Rightarrow> Inr (aid, pos')))"

definition select_agent_hybrid ::
  "Orchestrator \<Rightarrow> Task \<Rightarrow> string list \<Rightarrow> random_source \<Rightarrow> nat \<Rightarrow> error + string \<times> nat"
where
  "select_agent_hybrid s task ids rnd pos =
     (if priority task \<ge> 8 \<or> length (requirements task) > 3
      then (case select_agent_collaborative s task ids of
              Inl e \<Rightarrow> Inl e
            | Inr aid \<Rightarrow> Inr (aid, pos))
      else if priority task \<le> 3 then select_agent_competitive s task ids rnd pos
      else
        (case select_agent_collaborative s task ids of
           Inl e \<Rightarrow> Inl e
         | Inr collaborative_choice \<Rightarrow>
            (case select_agent_competitive s task ids rnd pos of
               Inl e \<Rightarrow> Inl e
             | Inr (competitive_choice, pos') \<Rightarrow>
                 Inr (if rnd pos' > 0.3 then collaborative_choice else competitive_choice,
                      Suc pos'))))"

text \<open>
  \<^verbatim>\<open>_select_agent_for_task\<close>: \<open>None\<close> for no candidate, the candidate itself when there
  is exactly one, the strategy of the coordination mode otherwise.
\<close>

definition select_agent_for_task ::
  "Orchestrator \<Rightarrow> Task \<Rightarrow> string list \<Rightarrow> random_source \<Rightarrow> nat \<Rightarrow> error + string option \<times> nat"
where
  "select_agent_for_task s task suitable_agents rnd pos =
     (case suitable_agents of
        [] \<Rightarrow> Inr (None, pos)
      | [only] \<Rightarrow> Inr (Some only, pos)
      | _ \<Rightarrow>
         (case coordination_mode s of
            COLLABORATIVE \<Rightarrow>
              (case select_agent_collaborative s task suitable_agents of
                 Inl e \<Rightarrow> Inl e
               | Inr aid \<Rightarrow> Inr (Some aid, pos))
          | COMPETITIVE \<Rightarrow>
              (case select_agent_competitive s task suitable_agents rnd pos of
                 Inl e \<Rightarrow> Inl e
               | Inr (aid, pos') \<Rightarrow> Inr (Some aid, pos'))
          | HYBRID \<Rightarrow>
              (case select_agent_hybrid s task suitable_agents rnd pos of
                 Inl e \<Rightarrow> Inl e
               | Inr (aid, pos') \<Rightarrow> Inr (Some aid, pos'))))"

section \<open>Coordination of several agents\<close>

text \<open>
  What one awaited \<^verbatim>\<open>_get_agent_contribution\<close> call has done when the ten-second window
  of \<^verbatim>\<open>asyncio.wait_for\<close> closes: it returned its dict, it raised (which
  \<^verbatim>\<open>gather(..., return_exceptions=True)\<close> hands back as a value), or it is still running.
\<close>

datatype call_outcome = Returned Contribution | Raised | Pending

definition zero_entry :: "string \<Rightarrow> Contribution" where
  "zero_entry aid =
     \<lparr>entry_agent_id = aid, contribution = 0, confidence = 0,
      entry_error = Some ''Coordination timeout or error''\<rparr>"

text \<open>\<^verbatim>\<open>np.mean\<close> of a list that is not empty.\<close>

definition mean :: "real list \<Rightarrow> real" where
  "mean xs = sum_list xs / real (length xs)"

text \<open>
  The collaborative branch of \<^verbatim>\<open>_combine_coordination_results\<close>: the loop gathers, for
  every entry without an \<^verbatim>\<open>'error'\<close> key, the weighted contribution and the weight.
\<close>

fun collect_weighted ::
  "Orchestrator \<Rightarrow> (string \<times> Contribution) list \<Rightarrow> error + (real \<times> real) list"
where
  "collect_weighted s [] = Inr []"
| "collect_weighted s ((aid, r) # rest) =
     (if entry_error r = None
      then (case map_of (agents s) aid of
              None \<Rightarrow> Inl (KeyError aid)
            | Some a \<Rightarrow>
                let agent_weight = confidence r * reliability_score (performance_metrics a)
                in (case collect_weighted s rest of
                      Inl e \<Rightarrow> Inl e
                    | Inr ws \<Rightarrow> Inr ((contribution r * agent_weight, agent_weight) # ws)))
      else collect_weighted s rest)"

definition combine_collaborative :: "Orchestrator \<Rightarrow> (string \<times> Contribution) list \<Rightarrow> error + real" where
  "combine_collaborative s results =
     (case collect_weighted s results of
        Inl e \<Rightarrow> Inl e
      | Inr ws \<Rightarrow>
          let total_weight = sum_list (map snd ws)
          in if total_weight > 0 then Inr (sum_list (map fst ws) / total_weight)
             else Inr (mean (map (\<lambda>(aid, r). contribution r) results)))"

definition combine_competitive :: "(string \<times> Contribution) list \<Rightarrow> real" where
  "combine_competitive results =
     (let (best_score, best_contribution) =
            foldl (\<lambda>(bs, bc) (aid, r).
                     if entry_error r = None
                     then (let score = contribution r * confidence r
                           in if score > bs then (score, contribution r) else (bs, bc))
                     else (bs, bc))
              (- 1, 0) results
      in if best_score \<ge> 0 then best_contribution else 0)"

text \<open>
  \<^verbatim>\<open>_combine_coordination_results\<close>; \<open>now\<close> is the clock reading stored as
  \<^verbatim>\<open>combined_at\<close>. In the hybrid branch both recursive calls receive the same entries,
  which are not empty there, so each returns a dict with a \<^verbatim>\<open>combined_value\<close>.
\<close>

definition combine_coordination_results ::
  "Orchestrator \<Rightarrow> (string \<times> Contribution) list \<Rightarrow> CoordinationMode \<Rightarrow> datetime
     \<Rightarrow> error + ResultPayload"
where
  "combine_coordination_results s results mode now =
     (if results = [] then Inr (ErrorResult ''No results to combine'')
      else
        (case (case mode of
                 COLLABORATIVE \<Rightarrow> combine_collaborative s results
               | COMPETITIVE \<Rightarrow> Inr (combine_competitive results)
               | HYBRID \<Rightarrow>
                   (case combine_collaborative s results of
                      Inl e \<Rightarrow> Inl e
                    | Inr collaborative_value \<Rightarrow>
                        let competitive_value = combine_competitive results;
                            collaborative_quality =
                              mean (map (\<lambda>(aid, r). confidence r) results)
                        in Inr (collaborative_value * collaborative_quality
                                + competitive_value * (1 - collaborative_quality))))
         of
           Inl e \<Rightarrow> Inl e
         | Inr combined_value \<Rightarrow>
             Inr (Combined combined_value (map fst results) results mode now)))"

text \<open>The dict \<^verbatim>\<open>coordination_results\<close> filled by the loop over the available agents.\<close>

definition process_results :: "string list \<Rightarrow> call_outcome list \<Rightarrow> (string \<times> Contribution) list" where
  "process_results available results =
     foldl (\<lambda>acc (aid, r).
              AList.update aid (case r of Returned c \<Rightarrow> c | _ \<Rightarrow> zero_entry aid) acc)
       [] (zip available results)"

text \<open>
  \<^verbatim>\<open>coordinate_agents\<close>. \<open>outcomes i\<close> is the outcome of the call started for the
  \<open>i\<close>-th available agent, \<open>uid\<close> the uuid digits, \<open>t_combined\<close> and \<open>t_result\<close> the two
  clock readings. When a call is still pending at the end of the window,
  \<^verbatim>\<open>asyncio.wait_for\<close> cancels the gather and raises \<^verbatim>\<open>TimeoutError\<close>, which the handler
  turns into a failure result. An error raised while combining is not caught. The
  orchestrator is taken not to be changed by another coroutine while the calls are
  awaited.
\<close>

definition coordinate_agents ::
  "Orchestrator \<Rightarrow> string \<Rightarrow> string list \<Rightarrow> CoordinationMode \<Rightarrow> (nat \<Rightarrow> call_outcome) \<Rightarrow> string
     \<Rightarrow> datetime \<Rightarrow> datetime \<Rightarrow> (error + CoordinationResult) \<times> Orchestrator"
where
  "coordinate_agents s tid agent_ids mode outcomes uid t_combined t_result =
     (let s1 = s\<lparr>coordination_events := coordination_events s + 1\<rparr>;
          available_agents =
            filter (\<lambda>aid. case map_of (agents s1) aid of
                             None \<Rightarrow> False
                           | Some a \<Rightarrow> status a = ACTIVE)
              agent_ids;
          result = (\<lambda>agts payload ok.
            \<lparr>coordination_id = ''COORD_'' @ uid, coord_task_id = tid,
             participating_agents = agts, coord_result = payload, coord_mode = mode,
             coord_timestamp = t_result, success = ok\<rparr>)
      in if available_agents = []
         then (Inr (result [] (ErrorResult ''No available agents for coordination'') False), s1)
         else
           let results = map outcomes [0..<length available_agents]
           in if Pending \<in> set results
              then
                let error_result =
                      result available_agents (ErrorResult ''Coordination timeout'') False
                in (Inr error_result,
                    s1\<lparr>coordination_history := coordination_history s1 @ [error_result]\<rparr>)
              else
                (case combine_coordination_results s1
                        (process_results available_agents results) mode t_combined of
                   Inl e \<Rightarrow> (Inl e, s1)
                 | Inr combined_result \<Rightarrow>
                     let coordination_result = result available_agents combined_result True
                     in (Inr coordination_result,
                         s1\<lparr>coordination_history :=
                               coordination_history s1 @ [coordination_result]\<rparr>)))"

section \<open>Agent removal and the health monitor\<close>

text \<open>
  The loop of \<^verbatim>\<open>_remove_agent\<close> over the agent's local queue. \<open>env k\<close> gives the uuid
  digits and the clock reading of the \<open>k\<close>-th resubmission. An error raised by
  \<^verbatim>\<open>submit_task\<close> is not caught here: it ends the loop and the removal.
\<close>

fun resubmit_tasks ::
  "Orchestrator \<Rightarrow> TaskItem list \<Rightarrow> (nat \<Rightarrow> string \<times> datetime) \<Rightarrow> nat \<Rightarrow> error option \<times> Orchestrator"
where
  "resubmit_tasks s [] env k = (None, s)"
| "resubmit_tasks s (task_item # rest) env k =
     (case submit_task s (item_task_type task_item) [] (item_input_data task_item)
             (case item_priority task_item of None \<Rightarrow> 1 | Some p \<Rightarrow> p) None
             (fst (env k)) (snd (env k)) of
        (Inl e, s') \<Rightarrow> (Some e, s')
      | (Inr tid, s') \<Rightarrow> resubmit_tasks s' rest env (Suc k))"

text \<open>
  \<^verbatim>\<open>_remove_agent\<close>: the raised error, if any, and the orchestrator as the call leaves
  it. \<^verbatim>\<open>agent_id in k\<close> on a key pair holds when either component is the agent.
\<close>

definition remove_agent ::
  "Orchestrator \<Rightarrow> string \<Rightarrow> (nat \<Rightarrow> string \<times> datetime) \<Rightarrow> error option \<times> Orchestrator"
where
  "remove_agent s aid env =
     (case map_of (agents s) aid of
        None \<Rightarrow> (None, s)
      | Some a \<Rightarrow>
         (case resubmit_tasks s (local_queue a) env 0 of
            (Some e, s') \<Rightarrow> (Some e, s')
          | (None, s1) \<Rightarrow>
              let s2 = s1\<lparr>capability_registry :=
                             foldl (\<lambda>reg cap. registry_remove cap aid reg)
                               (capability_registry s1) (capabilities a)\<rparr>;
                  s3 = s2\<lparr>trust_scores :=
                             filter (\<lambda>(k, v). \<not> (fst k = aid \<or> snd k = aid)) (trust_scores s2)\<rparr>;
                  s4 = s3\<lparr>agents := AList.delete aid (agents s3)\<rparr>
              in (case map_of (agent_configs s4) aid of
                    None \<Rightarrow> (Some (KeyError aid), s4)
                  | Some cfg \<Rightarrow>
                      (None, s4\<lparr>agent_configs := AList.delete aid (agent_configs s4)\<rparr>))))"

text \<open>
  The body of the loop of \<^verbatim>\<open>_monitor_agents\<close> for one agent; \<open>usage\<close> holds the three
  simulated resource readings drawn for it.
\<close>

definition monitor_agent :: "datetime \<Rightarrow> real \<times> real \<times> real \<Rightarrow> AgentState \<Rightarrow> AgentState" where
  "monitor_agent current_time usage a =
     (let time_since_heartbeat = current_time - last_heartbeat a;
          a1 = (if time_since_heartbeat > 300 then a\<lparr>status := ERROR\<rparr> else a);
          a2 = a1\<lparr>resource_usage :=
                     (resource_usage a1)\<lparr>memory_usage := fst usage,
                                           cpu_usage := fst (snd usage),
                                           network_usage := snd (snd usage)\<rparr>\<rparr>;
          a3 = (if status a2 = ACTIVE then a2\<lparr>last_heartbeat := current_time\<rparr> else a2)
      in a3)"

text \<open>
  The clean-up loop over \<^verbatim>\<open>agents_to_remove\<close>. An error from a removal leaves the loop;
  the monitor's handler only logs it, so the orchestrator stays as it was at that point.
\<close>

fun remove_agents ::
  "Orchestrator \<Rightarrow> string list \<Rightarrow> (string \<Rightarrow> nat \<Rightarrow> string \<times> datetime) \<Rightarrow> Orchestrator"
where
  "remove_agents s [] env = s"
| "remove_agents s (aid # rest) env =
     (case remove_agent s aid (env aid) of
        (Some e, s') \<Rightarrow> s'
      | (None, s') \<Rightarrow> remove_agents s' rest env)"

text \<open>One pass of the monitor loop, up to its sleep.\<close>

definition monitor_agents_tick ::
  "Orchestrator \<Rightarrow> datetime \<Rightarrow> (string \<Rightarrow> real \<times> real \<times> real)
     \<Rightarrow> (string \<Rightarrow> nat \<Rightarrow> string \<times> datetime) \<Rightarrow> Orchestrator"
where
  "monitor_agents_tick s current_time usage env =
     (let scanned = map (\<lambda>(aid, a). (aid, monitor_agent current_time (usage aid) a)) (agents s);
          agents_to_remove = map fst (filter (\<lambda>(aid, a). status a = TERMINATED) scanned)
      in remove_agents (s\<lparr>agents := scanned\<rparr>) agents_to_remove env)"

section \<open>Orderings and scenarios used in the statements\<close>

text \<open>
  The queue ordering as the specification words it, kept apart from the code's: higher
  priority first and, for equal priority, the task created earlier first.
\<close>

definition spec_queue_order :: "Task list \<Rightarrow> bool" where
  "spec_queue_order q =
     sorted_wrt (\<lambda>a b. priority b < priority a \<or>
                        (priority a = priority b \<and> created_at a \<le> created_at b)) q"

text \<open>Two submissions of equal priority, the first at time 1 and the second at time 2.\<close>

definition two_equal_priority :: Orchestrator where
  "two_equal_priority =
     snd (submit_task
            (snd (submit_task (init_orchestrator HYBRID) ''scan'' [''x'']
                    [(''market'', ''ETH'')] 5 None ''0a'' 1))
            ''scan'' [''x''] [(''market'', ''ETH'')] 5 None ''0b'' 2)"

text \<open>Two agents are created, then five failed completions are reported for the first.\<close>

definition ledger_run :: "ledger_event list" where
  "ledger_run =
     [Created DECISION_AGENT [''strategy_planning''] ''a1'' 0,
      Created RISK_AGENT [''position_sizing''] ''b2'' 1,
      Completed ''decision_agent_a1'' False, Completed ''decision_agent_a1'' False,
      Completed ''decision_agent_a1'' False, Completed ''decision_agent_a1'' False,
      Completed ''decision_agent_a1'' False]"

text \<open>The invariant of the trust ledger.\<close>

definition trust_ok :: "((string \<times> string) \<times> real) list \<Rightarrow> bool" where
  "trust_ok ts = (\<forall>(k, v) \<in> set ts. 1 / 10 \<le> v \<and> v \<le> 1)"

text \<open>
  An orchestrator with two agents, created at times 0 and 1, and the states of the two
  agents in it.
\<close>

definition pair_state :: Orchestrator where
  "pair_state =
     snd (create_agent
            (snd (create_agent (init_orchestrator COLLABORATIVE) DECISION_AGENT
                    [''strategy_planning''] ''a1'' 0))
            RISK_AGENT [''position_sizing''] ''b2'' 1)"

definition agent_a1 :: AgentState where
  "agent_a1 =
     (new_agent_state ''decision_agent_a1'' DECISION_AGENT [''strategy_planning''] 0)
       \<lparr>status := ACTIVE\<rparr>"

definition agent_b2 :: AgentState where
  "agent_b2 =
     (new_agent_state ''risk_agent_b2'' RISK_AGENT [''position_sizing''] 1)
       \<lparr>status := ACTIVE\<rparr>"

text \<open>The same orchestrator with the reliability score of the first agent at 0.5.\<close>

definition agent_a1_low :: AgentState where
  "agent_a1_low =
     agent_a1\<lparr>performance_metrics := (performance_metrics agent_a1)\<lparr>reliability_score := 0.5\<rparr>\<rparr>"

definition pair_state_low :: Orchestrator where
  "pair_state_low =
     pair_state\<lparr>agents := AList.update ''decision_agent_a1'' agent_a1_low (agents pair_state)\<rparr>"

definition planning_task :: Task where
  "planning_task =
     new_task ''strategy_planning'' [''strategy_planning''] [(''market'', ''ETH'')] 9 None
       ''0c'' 3"

text \<open>The second agent paused, and the second agent terminated with one queued task.\<close>

definition stale_paused_state :: Orchestrator where
  "stale_paused_state =
     pair_state\<lparr>agents :=
       AList.update ''risk_agent_b2'' (agent_b2\<lparr>status := PAUSED\<rparr>) (agents pair_state)\<rparr>"

definition queued_item :: TaskItem where
  "queued_item =
     \<lparr>item_task_id = ''TASK_0a'', item_task_type = ''risk_assessment'',
      item_input_data = [(''market'', ''ETH'')], item_deadline = None, item_assigned_at = 2,
      item_priority = Some 7\<rparr>"

definition terminated_state :: Orchestrator where
  "terminated_state =
     pair_state\<lparr>agents :=
       AList.update ''risk_agent_b2''
         (agent_b2\<lparr>status := TERMINATED, local_queue := [queued_item]\<rparr>) (agents pair_state)\<rparr>"

text \<open>
  Outcomes of a coordination round of the two agents: the first call returns a
  contribution; the second is still pending at the end of the window, or it raises.
\<close>

definition a1_contribution :: Contribution where
  "a1_contribution =
     \<lparr>entry_agent_id = ''decision_agent_a1'', contribution = 0.8, confidence = 0.9,
      entry_error = None\<rparr>"

definition second_pending :: "nat \<Rightarrow> call_outcome" where
  "second_pending i = (if i = 0 then Returned a1_contribution else Pending)"

definition second_raises :: "nat \<Rightarrow> call_outcome" where
  "second_raises i = (if i = 0 then Returned a1_contribution else Raised)"

text \<open>
  Outcomes of a round in which the first agent is listed twice: its first call raises,
  its second call returns a contribution.
\<close>

definition first_raises :: "nat \<Rightarrow> call_outcome" where
  "first_raises i = (if i = 0 then Raised else Returned a1_contribution)"

section \<open>Properties of task submission\<close>

lemma mset_sort_reverse: "mset (sort_reverse k xs) = mset xs"
  by (simp add: sort_reverse_def)

lemma sorted_sort_reverse: "sorted (rev (map k (sort_reverse k xs)))"
  by (simp add: sort_reverse_def rev_map)

text \<open>
  C4. Every submission that passes validation creates a task whose stored priority is the
  supplied integer clamped into the interval from 1 to 10, whatever that integer was.
\<close>

theorem submit_task_priority_clamped:
  "submit_task s ttype reqs inp prio dl uid now = (Inr tid, s') \<Longrightarrow>
     \<exists>t \<in> set (task_queue s').
        task_id t = tid \<and> t = new_task ttype reqs inp prio dl uid now \<and>
        priority t = (if prio < 1 then 1 else if 10 < prio then 10 else prio) \<and>
        1 \<le> priority t \<and> priority t \<le> 10"
proof -
  assume a: "submit_task s ttype reqs inp prio dl uid now = (Inr tid, s')"
  let ?t = "new_task ttype reqs inp prio dl uid now"
  from a have ok: "reqs \<noteq> []" "inp \<noteq> []"
    by (auto simp: submit_task_def split: if_splits)
  with a have tid: "tid = task_id ?t"
    and s': "s' = s\<lparr>task_queue := sort_reverse queue_key (task_queue s @ [?t])\<rparr>"
    by (auto simp: submit_task_def Let_def)
  from s' have "task_queue s' = sort_reverse queue_key (task_queue s @ [?t])" by simp
  then have "mset (task_queue s') = mset (task_queue s @ [?t])"
    by (simp only: mset_sort_reverse)
  then have "set (task_queue s') = set (task_queue s @ [?t])"
    by (rule mset_eq_setD)
  then have mem: "?t \<in> set (task_queue s')" by simp
  have "priority ?t = (if prio < 1 then 1 else if 10 < prio then 10 else prio)"
    by (simp add: new_task_def)
  with mem tid show ?thesis by (intro bexI [of _ ?t]) auto
qed

theorem submit_task_priority_clamped_witness:
  "\<exists>t \<in> set (task_queue (snd (submit_task (init_orchestrator HYBRID) ''scan'' [''x'']
        [(''market'', ''ETH'')] 42 None ''0a'' 7))).
      task_id t = ''TASK_0a'' \<and> priority t = 10"
proof -
  obtain r s' where e: "submit_task (init_orchestrator HYBRID) ''scan'' [''x'']
      [(''market'', ''ETH'')] 42 None ''0a'' 7 = (r, s')"
    by (cases "submit_task (init_orchestrator HYBRID) ''scan'' [''x'']
      [(''market'', ''ETH'')] 42 None ''0a'' 7") auto
  then have r: "r = Inr ''TASK_0a''"
    by (simp add: submit_task_def new_task_def Let_def)
  from submit_task_priority_clamped [OF e [unfolded r]]
  obtain t where t: "t \<in> set (task_queue s')" "task_id t = ''TASK_0a''"
    and p: "priority t = (if (42::int) < 1 then 1 else if 10 < (42::int) then 10 else 42)"
    by blast
  from p have "priority t = 10" by simp
  with t show ?thesis by (auto simp: e)
qed

text \<open>
  C5. A submission raises exactly when the requirements list or the input data is empty,
  and then the orchestrator (so its global queue) is left as it was; otherwise the call
  returns the id of one new task, and the queue holds that task once more than before and
  nothing else is added or lost.
\<close>

theorem submit_task_validation:
  "(isl (fst (submit_task s ttype reqs inp prio dl uid now)) \<longleftrightarrow> reqs = [] \<or> inp = []) \<and>
   (reqs = [] \<or> inp = [] \<longrightarrow> snd (submit_task s ttype reqs inp prio dl uid now) = s) \<and>
   (reqs \<noteq> [] \<and> inp \<noteq> [] \<longrightarrow>
      fst (submit_task s ttype reqs inp prio dl uid now) = Inr (''TASK_'' @ uid) \<and>
      mset (task_queue (snd (submit_task s ttype reqs inp prio dl uid now))) =
        add_mset (new_task ttype reqs inp prio dl uid now) (mset (task_queue s)) \<and>
      length (task_queue (snd (submit_task s ttype reqs inp prio dl uid now))) =
        Suc (length (task_queue s)))"
proof -
  have len: "length (sort_reverse queue_key xs) = length xs" for xs
    by (simp add: sort_reverse_def)
  show ?thesis
    by (simp add: submit_task_def Let_def mset_sort_reverse len) (simp add: new_task_def)
qed

theorem submit_task_validation_witness:
  "snd (submit_task (init_orchestrator HYBRID) ''scan'' [] [(''market'', ''ETH'')] 5 None ''0a'' 7)
     = init_orchestrator HYBRID \<and>
   snd (submit_task (init_orchestrator HYBRID) ''scan'' [''x''] [] 5 None ''0a'' 7)
     = init_orchestrator HYBRID \<and>
   fst (submit_task (init_orchestrator HYBRID) ''scan'' [''x''] [(''market'', ''ETH'')] 5 None
          ''0a'' 7) = Inr ''TASK_0a'' \<and>
   length (task_queue (snd (submit_task (init_orchestrator HYBRID) ''scan'' [''x'']
          [(''market'', ''ETH'')] 5 None ''0a'' 7))) = 1"
  using submit_task_validation [of "init_orchestrator HYBRID" "''scan''" "[]"
          "[(''market'', ''ETH'')]" 5 None "''0a''" 7]
        submit_task_validation [of "init_orchestrator HYBRID" "''scan''" "[''x'']" "[]" 5 None
          "''0a''" 7]
        submit_task_validation [of "init_orchestrator HYBRID" "''scan''" "[''x'']"
          "[(''market'', ''ETH'')]" 5 None "''0a''" 7]
  by (simp add: init_orchestrator_def)

text \<open>
  C6 (as the code has it). After every successful submission the global queue is in
  descending order of the pair (priority, creation time): a task of higher priority is
  ahead of one of lower priority and, among tasks of equal priority, the one created
  later is ahead of the one created earlier.
\<close>

theorem submit_task_queue_order:
  "submit_task s ttype reqs inp prio dl uid now = (Inr tid, s') \<Longrightarrow>
     sorted_wrt (\<lambda>a b. priority b < priority a \<or>
                        (priority b = priority a \<and> created_at b \<le> created_at a))
       (task_queue s')"
proof -
  assume a: "submit_task s ttype reqs inp prio dl uid now = (Inr tid, s')"
  then have q: "task_queue s' =
      sort_reverse queue_key (task_queue s @ [new_task ttype reqs inp prio dl uid now])"
    by (auto simp: submit_task_def Let_def split: if_splits)
  have "sorted (rev (map queue_key (task_queue s')))"
    unfolding q by (rule sorted_sort_reverse)
  then have "sorted_wrt (\<lambda>a b. queue_key b \<le> queue_key a) (task_queue s')"
    by (simp add: sorted_wrt_rev sorted_wrt_map)
  then show ?thesis
    by (rule sorted_wrt_mono_rel [rotated]) (auto simp: queue_key_def less_eq_prod_def)
qed

theorem submit_task_queue_order_witness:
  "sorted_wrt (\<lambda>a b. priority b < priority a \<or>
                      (priority b = priority a \<and> created_at b \<le> created_at a))
     (task_queue two_equal_priority)"
proof -
  have "submit_task
          (snd (submit_task (init_orchestrator HYBRID) ''scan'' [''x'']
                  [(''market'', ''ETH'')] 5 None ''0a'' 1))
          ''scan'' [''x''] [(''market'', ''ETH'')] 5 None ''0b'' 2
        = (Inr ''TASK_0b'', two_equal_priority)"
    by (simp add: two_equal_priority_def submit_task_def new_task_def Let_def)
  then show ?thesis by (rule submit_task_queue_order)
qed

text \<open>
  The claim as worded fails: of two tasks with priority 5 the one submitted second, at the
  later time, is at the head of the queue.
\<close>

theorem submit_task_fifo_counterexample:
  "map task_id (task_queue two_equal_priority) = [''TASK_0b'', ''TASK_0a''] \<and>
   map created_at (task_queue two_equal_priority) = [2, 1] \<and>
   \<not> spec_queue_order (task_queue two_equal_priority)"
  by (simp add: two_equal_priority_def submit_task_def new_task_def init_orchestrator_def
      sort_reverse_def queue_key_def Let_def spec_queue_order_def)

section \<open>Properties of the trust ledger and of performance tracking\<close>

lemma set_update_subset: "set (AList.update k v al) \<subseteq> insert (k, v) (set al)"
  by (induction al) auto

lemma trust_ok_update:
  "trust_ok ts \<Longrightarrow> 1 / 10 \<le> v \<Longrightarrow> v \<le> 1 \<Longrightarrow> trust_ok (AList.update k v ts)"
  using set_update_subset [of k v ts] by (auto simp: trust_ok_def)

lemma trust_ok_seed: "trust_ok ts \<Longrightarrow> trust_ok (seed_trust aid others ts)"
  unfolding seed_trust_def
  by (induction others arbitrary: ts) (simp_all add: trust_ok_update)

lemma trust_ok_shift: "trust_ok ts \<Longrightarrow> trust_ok (shift_trust c key ts)"
  by (auto simp: shift_trust_def intro!: trust_ok_update split: option.splits)

lemma trust_ok_create:
  "trust_ok (trust_scores s) \<Longrightarrow> trust_ok (trust_scores (snd (create_agent s ty caps uid now)))"
  by (simp add: create_agent_def Let_def trust_ok_seed)

lemma trust_ok_shift_all:
  "trust_ok ts \<Longrightarrow>
   trust_ok (foldl (\<lambda>ts other. if other \<noteq> aid
                                 then shift_trust c (other, aid) (shift_trust c (aid, other) ts)
                                 else ts) ts others)"
  by (induction others arbitrary: ts) (simp_all add: trust_ok_shift)

lemma trust_ok_update_trust:
  "trust_ok (trust_scores s) \<Longrightarrow> trust_ok (trust_scores (update_trust_scores s aid ok))"
  by (simp add: update_trust_scores_def Let_def trust_ok_shift_all)

lemma trust_ok_step: "trust_ok (trust_scores s) \<Longrightarrow> trust_ok (trust_scores (ledger_step s ev))"
  by (cases ev) (simp_all add: trust_ok_create trust_ok_update_trust)

lemma trust_ok_run:
  "trust_ok (trust_scores s) \<Longrightarrow> trust_ok (trust_scores (foldl ledger_step s evs))"
  by (induction evs arbitrary: s) (simp_all add: trust_ok_step)

text \<open>
  C3. Starting from the empty orchestrator, after any sequence of agent creations and of
  success or failure trust updates, every score stored in the trust ledger, for whatever
  pair of agents, lies between 0.1 and 1.0.
\<close>

theorem trust_scores_bounded:
  "(k, v) \<in> set (trust_scores (foldl ledger_step (init_orchestrator m) evs)) \<Longrightarrow>
     1 / 10 \<le> v \<and> v \<le> 1"
proof -
  have "trust_ok (trust_scores (init_orchestrator m))"
    by (simp add: trust_ok_def init_orchestrator_def)
  then have "trust_ok (trust_scores (foldl ledger_step (init_orchestrator m) evs))"
    by (rule trust_ok_run)
  moreover assume "(k, v) \<in> set (trust_scores (foldl ledger_step (init_orchestrator m) evs))"
  ultimately show ?thesis by (auto simp: trust_ok_def)
qed

lemma ledger_run_trust:
  "trust_scores (foldl ledger_step (init_orchestrator HYBRID) ledger_run) =
     [((''risk_agent_b2'', ''decision_agent_a1''), 1 / 10),
      ((''decision_agent_a1'', ''risk_agent_b2''), 1 / 10)]"
  by (simp add: ledger_run_def init_orchestrator_def create_agent_def Let_def seed_trust_def
      update_trust_scores_def shift_trust_def new_agent_state_def new_agent_config_def
      registry_append_def)

theorem trust_scores_bounded_witness:
  "((''decision_agent_a1'', ''risk_agent_b2''), 1 / 10)
     \<in> set (trust_scores (foldl ledger_step (init_orchestrator HYBRID) ledger_run)) \<and>
   (1 / 10 \<le> (1 / 10 :: real) \<and> (1 / 10 :: real) \<le> 1)"
proof -
  have mem: "((''decision_agent_a1'', ''risk_agent_b2''), 1 / 10)
     \<in> set (trust_scores (foldl ledger_step (init_orchestrator HYBRID) ledger_run))"
    by (simp add: ledger_run_trust)
  from mem trust_scores_bounded [OF mem] show ?thesis by blast
qed

text \<open>
  C8. A completion processed for a registered agent moves its reliability score
  asymmetrically: a success adds 0.02 times the distance to 1 and caps the result at 1.0,
  a failure subtracts 0.05 times the score and floors the result at 0.1.
\<close>

theorem update_agent_performance_reliability:
  "map_of (agents s) aid = Some a \<Longrightarrow>
   \<exists>a'. map_of (agents (update_agent_performance s aid ok pt)) aid = Some a' \<and>
     reliability_score (performance_metrics a') =
       (if ok
        then min 1 (reliability_score (performance_metrics a)
                      + 0.02 * (1 - reliability_score (performance_metrics a)))
        else max 0.1 (reliability_score (performance_metrics a)
                      - 0.05 * reliability_score (performance_metrics a)))"
  by (simp add: update_agent_performance_def Let_def update_conv')

text \<open>
  C10. With exactly one suitable agent, that agent is returned at once in every
  coordination mode: the result does not depend on the orchestrator (so not on any score,
  nor on whether the candidate is registered at all) and the random source is left at the
  position where it was.
\<close>

theorem select_agent_single_candidate:
  "select_agent_for_task s task [aid] rnd pos = Inr (Some aid, pos)"
  by (simp add: select_agent_for_task_def)

lemma pair_state_agents:
  "agents pair_state = [(''decision_agent_a1'', agent_a1), (''risk_agent_b2'', agent_b2)]"
  by (simp add: pair_state_def create_agent_def Let_def init_orchestrator_def agent_a1_def
      agent_b2_def)

lemma pair_state_configs:
  "agent_configs pair_state =
     [(''decision_agent_a1'', new_agent_config DECISION_AGENT [''strategy_planning'']),
      (''risk_agent_b2'', new_agent_config RISK_AGENT [''position_sizing''])]"
  by (simp add: pair_state_def create_agent_def Let_def init_orchestrator_def)

lemma pair_state_trust:
  "trust_scores pair_state =
     [((''risk_agent_b2'', ''decision_agent_a1''), 1 / 2),
      ((''decision_agent_a1'', ''risk_agent_b2''), 1 / 2)]"
  by (simp add: pair_state_def create_agent_def Let_def init_orchestrator_def seed_trust_def)

lemma pair_state_queue: "task_queue pair_state = []"
  by (simp add: pair_state_def create_agent_def Let_def init_orchestrator_def)

theorem update_agent_performance_reliability_witness:
  "\<exists>a'. map_of (agents (update_agent_performance pair_state ''decision_agent_a1'' False 2))
            ''decision_agent_a1'' = Some a' \<and>
        reliability_score (performance_metrics a') = 19 / 20"
proof -
  have a: "map_of (agents pair_state) ''decision_agent_a1'' = Some agent_a1"
    by (simp add: pair_state_agents)
  have r: "reliability_score (performance_metrics agent_a1) = 1"
    by (simp add: agent_a1_def new_agent_state_def)
  from update_agent_performance_reliability [OF a, of False 2] show ?thesis
    by (simp add: r)
qed

section \<open>Properties of collaborative selection\<close>

lemma capability_match_count_cong:
  "set caps' = set caps \<Longrightarrow> capability_match_count reqs caps' = capability_match_count reqs caps"
  by (simp add: capability_match_count_def)

lemma clamp_mono: "(x::real) \<le> y \<Longrightarrow> max 0 (min 1 x) \<le> max 0 (min 1 y)"
  by auto

text \<open>
  C7. The score that collaborative selection stores for an agent does not decrease when
  the agent's reliability score rises: for one task and two orchestrator states in which
  the agent has the same success rate, efficiency score, load, capability set,
  configuration and trust edges, and a reliability weight that is not negative (the
  default is 0.3), the state with the higher reliability score gets a score at least as
  high; when the computation raises, it raises the same error in both states.
\<close>

theorem collaborative_score_monotone:
  assumes "map_of (agents s) aid = Some a" and "map_of (agents s') aid = Some a'"
    and "map_of (agent_configs s) aid = Some cfg" and "map_of (agent_configs s') aid = Some cfg"
    and "map fst (agents s') = map fst (agents s)"
    and "trust_scores s' = trust_scores s"
    and "success_rate (performance_metrics a') = success_rate (performance_metrics a)"
    and "efficiency_score (performance_metrics a') = efficiency_score (performance_metrics a)"
    and "length (local_queue a') = length (local_queue a)"
    and "set (capabilities a') = set (capabilities a)"
    and "0 \<le> w_reliability (performance_weights cfg)"
    and "reliability_score (performance_metrics a) \<le> reliability_score (performance_metrics a')"
  shows "rel_sum (=) (\<le>) (collaborative_score s task aid) (collaborative_score s' task aid)"
proof (cases "requirements task = []")
  case True
  with assms(1-4) show ?thesis by (simp add: collaborative_score_def Let_def)
next
  case reqs: False
  let ?others = "filter (\<lambda>other. other \<noteq> aid) (map fst (agents s))"
  show ?thesis
  proof (cases "?others = []")
    case True
    with assms(1-5) reqs show ?thesis by (simp add: collaborative_score_def Let_def)
  next
    case others: False
    define w where "w = performance_weights cfg"
    define base where "base =
      success_rate (performance_metrics a) * w_success_rate w
      + efficiency_score (performance_metrics a) * w_efficiency w"
    define rest where "rest =
      (if max_concurrent_tasks (resource_limits cfg) > 0
       then 1 - real (length (local_queue a)) / max_concurrent_tasks (resource_limits cfg)
       else 1) * 0.25
      + real (capability_match_count (requirements task) (capabilities a))
          / real (length (requirements task)) * 0.25
      + sum_list (map (\<lambda>other. trust_get (trust_scores s) (aid, other)) ?others)
          / real (length ?others) * 0.15"
    have c: "capability_match_count (requirements task) (capabilities a')
        = capability_match_count (requirements task) (capabilities a)"
      using assms(10) by (rule capability_match_count_cong)
    have s1: "collaborative_score s task aid =
        Inr (max 0 (min 1 ((base + reliability_score (performance_metrics a) * w_reliability w)
                            * 0.35 + rest)))"
      using assms(1,3) reqs others
      by (simp add: collaborative_score_def Let_def base_def rest_def w_def)
    have s2: "collaborative_score s' task aid =
        Inr (max 0 (min 1 ((base + reliability_score (performance_metrics a') * w_reliability w)
                            * 0.35 + rest)))"
      using assms(2,4,5,6,7,8,9) c reqs others
      by (simp add: collaborative_score_def Let_def base_def rest_def w_def)
    have "reliability_score (performance_metrics a) * w_reliability w
        \<le> reliability_score (performance_metrics a') * w_reliability w"
      using assms(11,12) unfolding w_def by (rule mult_right_mono [rotated])
    then have "(base + reliability_score (performance_metrics a) * w_reliability w) * 0.35 + rest
        \<le> (base + reliability_score (performance_metrics a') * w_reliability w) * 0.35 + rest"
      by simp
    then show ?thesis unfolding s1 s2 by (simp only: rel_sum_simps clamp_mono)
  qed
qed

theorem collaborative_score_monotone_witness:
  "collaborative_score pair_state_low planning_task ''decision_agent_a1'' = Inr (349 / 400) \<and>
   collaborative_score pair_state planning_task ''decision_agent_a1'' = Inr (37 / 40) \<and>
   rel_sum (=) (\<le>)
     (collaborative_score pair_state_low planning_task ''decision_agent_a1'')
     (collaborative_score pair_state planning_task ''decision_agent_a1'')"
proof -
  have low: "collaborative_score pair_state_low planning_task ''decision_agent_a1''
      = Inr (349 / 400)"
    by (simp add: collaborative_score_def Let_def pair_state_low_def pair_state_agents
        pair_state_configs pair_state_trust agent_a1_low_def agent_a1_def new_agent_state_def
        new_agent_config_def default_weights_def base_limits_def planning_task_def
        new_task_def capability_match_count_def trust_get_def)
  have high: "collaborative_score pair_state planning_task ''decision_agent_a1'' = Inr (37 / 40)"
    by (simp add: collaborative_score_def Let_def pair_state_agents
        pair_state_configs pair_state_trust agent_a1_def new_agent_state_def
        new_agent_config_def default_weights_def base_limits_def planning_task_def
        new_task_def capability_match_count_def trust_get_def)
  have "rel_sum (=) (\<le>)
     (collaborative_score pair_state_low planning_task ''decision_agent_a1'')
     (collaborative_score pair_state planning_task ''decision_agent_a1'')"
    by (rule collaborative_score_monotone
          [where a = agent_a1_low and a' = agent_a1
             and cfg = "new_agent_config DECISION_AGENT [''strategy_planning'']"])
       (simp_all add: pair_state_low_def pair_state_agents pair_state_configs agent_a1_low_def
          agent_a1_def new_agent_state_def new_agent_config_def default_weights_def)
  with low high show ?thesis by blast
qed

section \<open>Properties of the health monitor and of agent removal\<close>

lemma submit_task_agents: "agents (snd (submit_task s ttype reqs inp prio dl uid now)) = agents s"
  by (simp add: submit_task_def Let_def)

lemma resubmit_tasks_agents: "agents (snd (resubmit_tasks s items env k)) = agents s"
proof (induction items arbitrary: s k)
  case Nil
  then show ?case by simp
next
  case (Cons it items)
  obtain r s' where e: "submit_task s (item_task_type it) [] (item_input_data it)
             (case item_priority it of None \<Rightarrow> 1 | Some p \<Rightarrow> p) None
             (fst (env k)) (snd (env k)) = (r, s')"
    by (metis surj_pair)
  have "agents s' = agents s" using submit_task_agents [of s] e by (metis snd_conv)
  with Cons e show ?case by (cases r) simp_all
qed

lemma remove_agent_other:
  assumes "x \<noteq> aid"
  shows "map_of (agents (snd (remove_agent s x env))) aid = map_of (agents s) aid"
proof (cases "map_of (agents s) x")
  case None
  then show ?thesis by (simp add: remove_agent_def)
next
  case (Some a)
  obtain e s1 where r: "resubmit_tasks s (local_queue a) env 0 = (e, s1)"
    by (metis surj_pair)
  have ag: "agents s1 = agents s"
    using resubmit_tasks_agents [of s "local_queue a" env 0] r by simp
  show ?thesis
    using Some r ag assms
    by (cases e) (auto simp: remove_agent_def Let_def split: option.splits)
qed

lemma remove_agents_other:
  "aid \<notin> set xs \<Longrightarrow> map_of (agents (remove_agents s xs env)) aid = map_of (agents s) aid"
proof (induction xs arbitrary: s)
  case Nil
  then show ?case by simp
next
  case (Cons x xs)
  obtain e s' where r: "remove_agent s x (env x) = (e, s')" by (metis surj_pair)
  have keep: "map_of (agents s') aid = map_of (agents s) aid"
    using remove_agent_other [of x aid s "env x"] Cons.prems r by auto
  show ?case
  proof (cases e)
    case None
    with r keep Cons show ?thesis by simp
  next
    case (Some err)
    with r keep show ?thesis by simp
  qed
qed

lemma map_of_scanned:
  "map_of (map (\<lambda>(k, a). (k, f k a)) al) aid = map_option (f aid) (map_of al aid)"
  by (induction al) auto

lemma monitor_agent_status:
  "status (monitor_agent t u a) = (if t - last_heartbeat a > 300 then ERROR else status a)"
  by (simp add: monitor_agent_def Let_def)

lemma scanned_member:
  "distinct (map fst al) \<Longrightarrow> map_of al aid = Some a \<Longrightarrow>
   (aid, x) \<in> set (map (\<lambda>(k, a). (k, f k a)) al) \<Longrightarrow> x = f aid a"
  by (induction al) (auto split: if_splits simp: rev_image_eqI)

text \<open>
  C9 (as the code has it). On a monitor pass, every registered agent whose last heartbeat
  is more than 300 seconds old has status Error afterwards, whatever its status was
  before: the timeout check does not look at the status. An agent whose heartbeat is not
  that old, and which is not Terminated, keeps its status.
\<close>

theorem monitor_heartbeat_timeout:
  assumes "distinct (map fst (agents s))" and "map_of (agents s) aid = Some a"
  shows "(current_time - last_heartbeat a > 300 \<longrightarrow>
            (\<exists>a'. map_of (agents (monitor_agents_tick s current_time usage env)) aid = Some a'
                  \<and> status a' = ERROR)) \<and>
         (\<not> current_time - last_heartbeat a > 300 \<and> status a \<noteq> TERMINATED \<longrightarrow>
            (\<exists>a'. map_of (agents (monitor_agents_tick s current_time usage env)) aid = Some a'
                  \<and> status a' = status a))"
proof -
  let ?f = "\<lambda>k a. monitor_agent current_time (usage k) a"
  let ?scanned = "map (\<lambda>(k, a). (k, ?f k a)) (agents s)"
  let ?rm = "map fst (filter (\<lambda>(k, a). status a = TERMINATED) ?scanned)"
  have tick: "monitor_agents_tick s current_time usage env
      = remove_agents (s\<lparr>agents := ?scanned\<rparr>) ?rm env"
    by (simp add: monitor_agents_tick_def Let_def)
  have look: "map_of ?scanned aid = Some (?f aid a)"
    using assms(2) by (simp add: map_of_scanned)
  have notrm: "aid \<notin> set ?rm" if "status (?f aid a) \<noteq> TERMINATED"
  proof
    assume "aid \<in> set ?rm"
    then obtain x where x: "(aid, x) \<in> set ?scanned" "status x = TERMINATED" by fastforce
    from scanned_member [OF assms x(1)] have "x = ?f aid a" .
    with x(2) that show False by simp
  qed
  have after: "map_of (agents (monitor_agents_tick s current_time usage env)) aid
      = Some (?f aid a)" if "status (?f aid a) \<noteq> TERMINATED"
    unfolding tick using remove_agents_other [OF notrm [OF that]] look by simp
  show ?thesis
    using after by (auto simp: monitor_agent_status)
qed

theorem monitor_heartbeat_timeout_witness:
  "(\<exists>a'. map_of (agents (monitor_agents_tick pair_state 302 (\<lambda>aid. (50, 0.2, 5))
                            (\<lambda>aid k. (''00'', 302)))) ''risk_agent_b2'' = Some a'
         \<and> status a' = ERROR) \<and>
   (\<exists>a'. map_of (agents (monitor_agents_tick pair_state 100 (\<lambda>aid. (50, 0.2, 5))
                            (\<lambda>aid k. (''00'', 100)))) ''risk_agent_b2'' = Some a'
         \<and> status a' = ACTIVE)"
proof -
  have d: "distinct (map fst (agents pair_state))" by (simp add: pair_state_agents)
  have a: "map_of (agents pair_state) ''risk_agent_b2'' = Some agent_b2"
    by (simp add: pair_state_agents)
  have b: "last_heartbeat agent_b2 = 1" "status agent_b2 = ACTIVE"
    by (simp_all add: agent_b2_def new_agent_state_def)
  from monitor_heartbeat_timeout [OF d a, of 302 "\<lambda>aid. (50, 0.2, 5)" "\<lambda>aid k. (''00'', 302)"]
       monitor_heartbeat_timeout [OF d a, of 100 "\<lambda>aid. (50, 0.2, 5)" "\<lambda>aid k. (''00'', 100)"]
  show ?thesis by (simp add: b)
qed

text \<open>
  The claim as worded fails: an agent that is Paused, with a heartbeat 301 seconds old, is
  moved to Error by the monitor pass.
\<close>

theorem monitor_paused_agent_counterexample:
  "map_option status (map_of (agents stale_paused_state) ''risk_agent_b2'') = Some PAUSED \<and>
   map_option last_heartbeat (map_of (agents stale_paused_state) ''risk_agent_b2'') = Some 1 \<and>
   map_option status
     (map_of (agents (monitor_agents_tick stale_paused_state 302 (\<lambda>aid. (50, 0.2, 5))
                        (\<lambda>aid k. (''00'', 302))))
        ''risk_agent_b2'') = Some ERROR"
  by (simp add: stale_paused_state_def pair_state_agents monitor_agents_tick_def Let_def
      monitor_agent_def agent_a1_def agent_b2_def new_agent_state_def)

text \<open>
  Removing an agent whose local queue is not empty raises at the first resubmission,
  because the empty requirements list does not pass the validation of the submission, and
  leaves the orchestrator as it was.
\<close>

lemma remove_agent_nonempty_queue:
  assumes "map_of (agents s) aid = Some a" and "local_queue a \<noteq> []"
  shows "remove_agent s aid env =
           (Some (ValueError ''Task must have at least one requirement''), s)"
proof -
  from assms(2) obtain it items where q: "local_queue a = it # items"
    by (cases "local_queue a") auto
  show ?thesis using assms(1) by (simp add: remove_agent_def q submit_task_def)
qed

text \<open>
  C2 (the code does not do what the claim says). A terminated agent holds one queued task.
  Removing it raises the validation error of the submission; the global queue is still
  empty afterwards and the agent is still registered with its task. The same holds after a
  whole monitor pass, which only logs the error.
\<close>

theorem remove_agent_resubmits_nothing:
  "map_option local_queue (map_of (agents terminated_state) ''risk_agent_b2'')
     = Some [queued_item] \<and>
   task_queue terminated_state = [] \<and>
   remove_agent terminated_state ''risk_agent_b2'' (\<lambda>k. (''00'', 3)) =
     (Some (ValueError ''Task must have at least one requirement''), terminated_state) \<and>
   task_queue (monitor_agents_tick terminated_state 3 (\<lambda>aid. (50, 0.2, 5))
                 (\<lambda>aid k. (''00'', 3))) = [] \<and>
   map_option local_queue
     (map_of (agents (monitor_agents_tick terminated_state 3 (\<lambda>aid. (50, 0.2, 5))
                        (\<lambda>aid k. (''00'', 3)))) ''risk_agent_b2'') = Some [queued_item]"
  by (simp add: terminated_state_def pair_state_agents remove_agent_def Let_def
      agent_a1_def agent_b2_def new_agent_state_def submit_task_def pair_state_queue
      monitor_agents_tick_def monitor_agent_def)

section \<open>Properties of coordination\<close>

lemma process_results_keys_aux:
  "fst ` set (foldl (\<lambda>acc (aid, r). AList.update aid (g aid r) acc) acc zs)
     = fst ` set acc \<union> fst ` set zs"
proof (induction zs arbitrary: acc)
  case Nil
  then show ?case by simp
next
  case (Cons p zs)
  obtain a b where p: "p = (a, b)" by (cases p)
  show ?case unfolding p by (simp add: Cons.IH dom_update)
qed

lemma process_results_keys:
  assumes "length rs = length av"
  shows "fst ` set (process_results av rs) = set av"
proof -
  have "fst ` set (zip av rs) = set (map fst (zip av rs))" by simp
  also have "\<dots> = set av" using assms by (simp only: map_fst_zip)
  finally show ?thesis
    unfolding process_results_def
    by (simp only: process_results_keys_aux
        [where g = "\<lambda>aid r. case r of Returned c \<Rightarrow> c | _ \<Rightarrow> zero_entry aid"]) simp
qed

lemma map_of_rev_distinct:
  assumes "distinct (map fst zs)"
  shows "map_of (rev zs) k = map_of zs k"
proof -
  have d: "distinct (map fst (rev zs))" using assms by (simp flip: rev_map)
  have "map_of (rev zs) k = Some y \<longleftrightarrow> map_of zs k = Some y" for y
    using map_of_eq_Some_iff [OF assms, of k y] map_of_eq_Some_iff [OF d, of k y] by simp
  then show ?thesis by (cases "map_of zs k"; cases "map_of (rev zs) k") auto
qed

lemma map_of_fold_update:
  "map_of (foldl (\<lambda>acc (aid, r). AList.update aid (g aid r) acc) acc zs) k =
     (case map_of (rev zs) k of None \<Rightarrow> map_of acc k | Some r \<Rightarrow> Some (g k r))"
proof (induction zs rule: rev_induct)
  case Nil
  then show ?case by simp
next
  case (snoc p zs)
  obtain a b where p: "p = (a, b)" by (cases p)
  show ?case unfolding p using snoc by (simp add: update_conv')
qed

lemma process_results_lookup:
  assumes "distinct av" and "length rs = length av" and "i < length av"
  shows "map_of (process_results av rs) (av ! i) =
           Some (case rs ! i of Returned c \<Rightarrow> c | _ \<Rightarrow> zero_entry (av ! i))"
proof -
  have d: "distinct (map fst (zip av rs))" using assms(1,2) by (simp add: map_fst_zip)
  have "map_of (rev (zip av rs)) (av ! i) = map_of (zip av rs) (av ! i)"
    using d by (rule map_of_rev_distinct)
  also have "\<dots> = Some (rs ! i)"
    using assms by (intro map_of_zip_nth) simp_all
  finally show ?thesis
    unfolding process_results_def
    by (simp add: map_of_fold_update
        [where g = "\<lambda>aid r. case r of Returned c \<Rightarrow> c | _ \<Rightarrow> zero_entry aid"])
qed

lemma map_of_rev_zip_last:
  "length rs = length av \<Longrightarrow> i < length av \<Longrightarrow>
   (\<forall>j. i < j \<and> j < length av \<longrightarrow> av ! j \<noteq> av ! i) \<Longrightarrow>
   map_of (rev (zip av rs)) (av ! i) = Some (rs ! i)"
proof (induction av arbitrary: rs rule: rev_induct)
  case Nil
  then show ?case by simp
next
  case (snoc x xs)
  from snoc.prems(1) obtain ys y where rs: "rs = ys @ [y]" and len: "length ys = length xs"
    by (cases rs rule: rev_cases) auto
  show ?case
  proof (cases "i = length xs")
    case True
    then show ?thesis using rs len by (simp add: nth_append)
  next
    case False
    with snoc.prems(2) have i: "i < length xs" by simp
    have "(xs @ [x]) ! length xs \<noteq> (xs @ [x]) ! i"
      using snoc.prems(3) i by (metis length_append_singleton lessI)
    then have ne: "x \<noteq> xs ! i" using i by (simp add: nth_append)
    have later: "\<forall>j. i < j \<and> j < length xs \<longrightarrow> xs ! j \<noteq> xs ! i"
    proof (intro allI impI)
      fix j assume j: "i < j \<and> j < length xs"
      then have "(xs @ [x]) ! j \<noteq> (xs @ [x]) ! i"
        using snoc.prems(3) by (metis length_append_singleton less_Suc_eq)
      with j i show "xs ! j \<noteq> xs ! i" by (simp add: nth_append)
    qed
    from snoc.IH [OF len i later] have "map_of (rev (zip xs ys)) (xs ! i) = Some (ys ! i)" .
    then show ?thesis using rs len i ne by (simp add: nth_append)
  qed
qed

text \<open>
  The results are keyed by agent id, so the entry kept for an agent is that of the last
  call started for it.
\<close>

lemma process_results_last_call:
  assumes "length rs = length av" and "i < length av"
    and "\<forall>j. i < j \<and> j < length av \<longrightarrow> av ! j \<noteq> av ! i"
  shows "map_of (process_results av rs) (av ! i) =
           Some (case rs ! i of Returned c \<Rightarrow> c | _ \<Rightarrow> zero_entry (av ! i))"
  unfolding process_results_def
  by (simp add: map_of_fold_update
        [where g = "\<lambda>aid r. case r of Returned c \<Rightarrow> c | _ \<Rightarrow> zero_entry aid"]
      map_of_rev_zip_last [OF assms])

lemma collect_weighted_ok:
  "\<forall>aid \<in> fst ` set results. map_of (agents s) aid \<noteq> None \<Longrightarrow>
   \<exists>ws. collect_weighted s results = Inr ws"
proof (induction results)
  case Nil
  then show ?case by simp
next
  case (Cons p results)
  obtain aid r where p: "p = (aid, r)" by (cases p)
  from Cons obtain ws where ws: "collect_weighted s results = Inr ws" by auto
  from Cons.prems p obtain a where a: "map_of (agents s) aid = Some a" by auto
  show ?case using p ws a by (simp add: Let_def)
qed

lemma combine_ok:
  assumes "results \<noteq> []" and "\<forall>aid \<in> fst ` set results. map_of (agents s) aid \<noteq> None"
  shows "\<exists>v. combine_coordination_results s results mode now
            = Inr (Combined v (map fst results) results mode now)"
proof -
  from collect_weighted_ok [OF assms(2)] obtain ws where "collect_weighted s results = Inr ws" ..
  then obtain c where c: "combine_collaborative s results = Inr c"
    by (cases "0 < sum_list (map snd ws)") (simp_all add: combine_collaborative_def Let_def)
  show ?thesis using assms(1) c
    by (cases mode) (simp_all add: combine_coordination_results_def Let_def)
qed

text \<open>
  C1 (as the code has it). Let at least one candidate be registered and Active. If some
  contribution call is still pending when the window closes, the coordination returns a
  failure result with the payload ``Coordination timeout'', lists the available agents
  and appends that result to the history: nothing is combined. If every call has returned
  or raised, the coordination succeeds with a combined payload over the entries of the
  available agents. The entries are keyed by agent id: for a call after which no later
  call of the round is for the same agent id, the entry of its agent is the returned
  contribution when the call returned, and the entry with contribution 0, confidence 0
  and an error mark when the call raised. When the available agents are distinct this
  holds for every call.
\<close>

theorem coordinate_agents_outcomes:
  assumes "available =
             filter (\<lambda>aid. case map_of (agents s) aid of
                              None \<Rightarrow> False
                            | Some a \<Rightarrow> status a = ACTIVE) agent_ids"
    and "available \<noteq> []"
    and "results = map outcomes [0..<length available]"
  shows "(Pending \<in> set results \<longrightarrow>
           (\<exists>r. coordinate_agents s tid agent_ids mode outcomes uid t1 t2 =
                   (Inr r, s\<lparr>coordination_events := coordination_events s + 1,
                              coordination_history := coordination_history s @ [r]\<rparr>) \<and>
                 \<not> success r \<and> coord_result r = ErrorResult ''Coordination timeout'' \<and>
                 participating_agents r = available)) \<and>
         (Pending \<notin> set results \<longrightarrow>
           (\<exists>r v. coordinate_agents s tid agent_ids mode outcomes uid t1 t2 =
                   (Inr r, s\<lparr>coordination_events := coordination_events s + 1,
                              coordination_history := coordination_history s @ [r]\<rparr>) \<and>
                 success r \<and> participating_agents r = available \<and>
                 coord_result r =
                   Combined v (map fst (process_results available results))
                     (process_results available results) mode t1)) \<and>
         (\<forall>i < length available.
            (\<forall>j. i < j \<and> j < length available \<longrightarrow> available ! j \<noteq> available ! i) \<longrightarrow>
            (outcomes i = Raised \<longrightarrow>
               map_of (process_results available results) (available ! i)
                 = Some (zero_entry (available ! i))) \<and>
            (\<forall>c. outcomes i = Returned c \<longrightarrow>
               map_of (process_results available results) (available ! i) = Some c)) \<and>
         (distinct available \<longrightarrow>
           (\<forall>i < length available.
              outcomes i = Raised \<longrightarrow>
              map_of (process_results available results) (available ! i)
                = Some (zero_entry (available ! i))))"
proof -
  let ?s1 = "s\<lparr>coordination_events := coordination_events s + 1\<rparr>"
  have av: "filter (\<lambda>aid. case map_of (agents s) aid of None \<Rightarrow> False
                           | Some a \<Rightarrow> status a = ACTIVE) agent_ids = available"
    using assms(1) by simp
  have len: "length results = length available" using assms(3) by simp
  have keys: "fst ` set (process_results available results) = set available"
    using len by (rule process_results_keys)
  have ne: "process_results available results \<noteq> []"
    using keys assms(2) by auto
  have reg: "\<forall>aid \<in> fst ` set (process_results available results). map_of (agents ?s1) aid \<noteq> None"
    unfolding keys using assms(1) by (auto split: option.splits)
  from combine_ok [OF ne reg, of mode t1] obtain v where
    v: "combine_coordination_results ?s1 (process_results available results) mode t1
          = Inr (Combined v (map fst (process_results available results))
                   (process_results available results) mode t1)" ..
  have res: "map outcomes [0..<length available] = results"
    using assms(3) by simp
  have main: "(Pending \<in> set results \<longrightarrow>
           (\<exists>r. coordinate_agents s tid agent_ids mode outcomes uid t1 t2 =
                   (Inr r, s\<lparr>coordination_events := coordination_events s + 1,
                              coordination_history := coordination_history s @ [r]\<rparr>) \<and>
                 \<not> success r \<and> coord_result r = ErrorResult ''Coordination timeout'' \<and>
                 participating_agents r = available)) \<and>
         (Pending \<notin> set results \<longrightarrow>
           (\<exists>r v. coordinate_agents s tid agent_ids mode outcomes uid t1 t2 =
                   (Inr r, s\<lparr>coordination_events := coordination_events s + 1,
                              coordination_history := coordination_history s @ [r]\<rparr>) \<and>
                 success r \<and> participating_agents r = available \<and>
                 coord_result r =
                   Combined v (map fst (process_results available results))
                     (process_results available results) mode t1))"
    using assms(2) v
    by (simp add: coordinate_agents_def Let_def av res)
  have last_call: "map_of (process_results available results) (available ! i)
        = Some (case outcomes i of Returned c \<Rightarrow> c | _ \<Rightarrow> zero_entry (available ! i))"
    if "i < length available"
      and "\<forall>j. i < j \<and> j < length available \<longrightarrow> available ! j \<noteq> available ! i" for i
  proof -
    have "results ! i = outcomes i" using that(1) assms(3) by simp
    with process_results_last_call [OF len that] show ?thesis by simp
  qed
  have keyed: "\<forall>i < length available.
            (\<forall>j. i < j \<and> j < length available \<longrightarrow> available ! j \<noteq> available ! i) \<longrightarrow>
            (outcomes i = Raised \<longrightarrow>
               map_of (process_results available results) (available ! i)
                 = Some (zero_entry (available ! i))) \<and>
            (\<forall>c. outcomes i = Returned c \<longrightarrow>
               map_of (process_results available results) (available ! i) = Some c)"
    using last_call by auto
  have zero: "map_of (process_results available results) (available ! i)
                = Some (zero_entry (available ! i))"
    if "distinct available" "i < length available" "outcomes i = Raised" for i
  proof -
    have "\<forall>j. i < j \<and> j < length available \<longrightarrow> available ! j \<noteq> available ! i"
      using that(1,2) by (auto simp: nth_eq_iff_index_eq)
    from last_call [OF that(2) this] that(3) show ?thesis by simp
  qed
  have zero_all: "distinct available \<longrightarrow>
           (\<forall>i < length available.
              outcomes i = Raised \<longrightarrow>
              map_of (process_results available results) (available ! i)
                = Some (zero_entry (available ! i)))"
    using zero by blast
  show ?thesis
    by (intro conjI) (fact conjunct1 [OF main], fact conjunct2 [OF main], fact keyed,
        fact zero_all)
qed

theorem coordinate_agents_outcomes_witness:
  "(\<exists>r. fst (coordinate_agents pair_state ''T1'' [''decision_agent_a1'', ''risk_agent_b2'']
                HYBRID second_pending ''c0'' 10 11) = Inr r \<and>
         \<not> success r \<and> coord_result r = ErrorResult ''Coordination timeout'') \<and>
   (\<exists>r v. fst (coordinate_agents pair_state ''T1'' [''decision_agent_a1'', ''risk_agent_b2'']
                HYBRID second_raises ''c0'' 10 11) = Inr r \<and>
         success r \<and>
         coord_result r =
           Combined v [''decision_agent_a1'', ''risk_agent_b2'']
             [(''decision_agent_a1'', a1_contribution),
              (''risk_agent_b2'', zero_entry ''risk_agent_b2'')] HYBRID 10)"
proof -
  let ?ids = "[''decision_agent_a1'', ''risk_agent_b2'']"
  have av: "?ids = filter (\<lambda>aid. case map_of (agents pair_state) aid of
                              None \<Rightarrow> False
                            | Some a \<Rightarrow> status a = ACTIVE) ?ids"
    by (simp add: pair_state_agents agent_a1_def agent_b2_def)
  have ne: "?ids \<noteq> []" by simp
  have r1: "[Returned a1_contribution, Pending] = map second_pending [0..<length ?ids]"
    by (simp add: second_pending_def)
  have r2: "[Returned a1_contribution, Raised] = map second_raises [0..<length ?ids]"
    by (simp add: second_raises_def)
  have p: "process_results ?ids [Returned a1_contribution, Raised] =
      [(''decision_agent_a1'', a1_contribution),
       (''risk_agent_b2'', zero_entry ''risk_agent_b2'')]"
    by (simp add: process_results_def)
  note pending = coordinate_agents_outcomes [OF av ne r1, of "''T1''" HYBRID "''c0''" 10 11]
  note raised = coordinate_agents_outcomes [OF av ne r2, of "''T1''" HYBRID "''c0''" 10 11]
  from conjunct1 [OF pending] conjunct1 [OF conjunct2 [OF raised]]
  show ?thesis
    by (simp add: p) (metis fst_conv)
qed

text \<open>
  The claim as worded fails: with two Active candidates, of which one has returned its
  contribution and the other is still pending when the window closes, the result is a
  failure and the contribution that did arrive is not combined.
\<close>

theorem coordinate_agents_timeout_counterexample:
  "fst (coordinate_agents pair_state ''T1'' [''decision_agent_a1'', ''risk_agent_b2'']
          COLLABORATIVE second_pending ''c0'' 10 11) =
     Inr \<lparr>coordination_id = ''COORD_c0'', coord_task_id = ''T1'',
          participating_agents = [''decision_agent_a1'', ''risk_agent_b2''],
          coord_result = ErrorResult ''Coordination timeout'',
          coord_mode = COLLABORATIVE, coord_timestamp = 11, success = False\<rparr>"
  by (simp add: coordinate_agents_def Let_def pair_state_agents agent_a1_def agent_b2_def
      second_pending_def)

text \<open>
  A candidate listed twice is called twice. When its first call raises and its second
  returns, the round succeeds and the only entry is the returned contribution: the zero
  entry of the first call has been overwritten.
\<close>

lemma coordinate_agents_duplicate_candidate:
  "fst (coordinate_agents pair_state ''T1'' [''decision_agent_a1'', ''decision_agent_a1'']
          COLLABORATIVE first_raises ''c0'' 10 11) =
     Inr \<lparr>coordination_id = ''COORD_c0'', coord_task_id = ''T1'',
          participating_agents = [''decision_agent_a1'', ''decision_agent_a1''],
          coord_result = Combined (4 / 5) [''decision_agent_a1'']
             [(''decision_agent_a1'', a1_contribution)] COLLABORATIVE 10,
          coord_mode = COLLABORATIVE, coord_timestamp = 11, success = True\<rparr>"
  by (simp add: coordinate_agents_def Let_def pair_state_agents agent_a1_def agent_b2_def
      first_raises_def process_results_def combine_coordination_results_def
      combine_collaborative_def a1_contribution_def new_agent_state_def)

end
